theory Spec2Isabelle
  imports Main
begin

section \<open>JavaScript strings\<close>

text \<open>
  A JavaScript string is modelled as a \<open>string\<close>: one \<open>char\<close> per code unit, for the
  code units below 256. The helpers below are the built-in string methods that
  \<open>AppHelper.getNoCacheFrontMatter\<close> and \<open>OldNoteAdmonitorPlugin.exec\<close> call.
\<close>

text \<open>\<open>s.split(sep)\<close> for a one-character separator: the result always has at least one
  piece (the empty string splits into one empty piece).\<close>

fun split_on :: "char \<Rightarrow> string \<Rightarrow> string list" where
  "split_on c [] = [[]]"
| "split_on c (x # xs) =
     (if x = c then [] # split_on c xs
      else (case split_on c xs of
              w # ws \<Rightarrow> (x # w) # ws
            | [] \<Rightarrow> [[x]]))"

text \<open>The characters \<open>String.prototype.trim\<close> strips: tab, line feed, vertical tab, form
  feed, carriage return, space and no-break space.\<close>

definition js_whitespace :: "char \<Rightarrow> bool" where
  "js_whitespace c =
     (c = CHR 0x09 \<or> c = CHR 0x0A \<or> c = CHR 0x0B \<or> c = CHR 0x0C \<or> c = CHR 0x0D
      \<or> c = CHR 0x20 \<or> c = CHR 0xA0)"

definition trim :: "string \<Rightarrow> string" where
  "trim s = rev (dropWhile js_whitespace (rev (dropWhile js_whitespace s)))"

text \<open>The regular expression atom \<open>.\<close> matches every character but a line terminator.\<close>

definition dot :: "char \<Rightarrow> bool" where
  "dot c = (c \<noteq> CHR 0x0A \<and> c \<noteq> CHR 0x0D)"

text \<open>\<open>/.+: .+/.test(line)\<close>: the pattern is not anchored, and each \<open>.+\<close> needs one
  character only, so the test succeeds exactly when some colon followed by a space has a
  \<open>.\<close> character directly before it and directly after the space.\<close>

fun fm_line_test :: "string \<Rightarrow> bool" where
  "fm_line_test (a # b # c # d # rest) =
     ((dot a \<and> b = CHR '':'' \<and> c = CHR '' '' \<and> dot d) \<or> fm_line_test (b # c # d # rest))"
| "fm_line_test _ = False"

text \<open>\<open>s.replace(pattern, replacement)\<close> with a string pattern: the first occurrence
  only. The replacement is inserted as it is; the two call sites pass a decimal number and
  a formatted date, which hold no \<open>$\<close>.\<close>

fun replace_first :: "string \<Rightarrow> string \<Rightarrow> string \<Rightarrow> string" where
  "replace_first pat rep [] = (if pat = [] then rep else [])"
| "replace_first pat rep (x # xs) =
     (if take (length pat) (x # xs) = pat then rep @ drop (length pat) (x # xs)
      else x # replace_first pat rep xs)"

text \<open>\<open>String(n)\<close> for an integer \<open>n\<close>.\<close>

definition digit_char :: "nat \<Rightarrow> char" where
  "digit_char d = char_of (48 + d)"

fun digits :: "nat \<Rightarrow> string" where
  "digits n = (if n < 10 then [digit_char n] else digits (n div 10) @ [digit_char (n mod 10)])"

declare digits.simps [simp del]

definition js_string_of_int :: "int \<Rightarrow> string" where
  "js_string_of_int n = (if n < 0 then CHR ''-'' # digits (nat (- n)) else digits (nat n))"

section \<open>JavaScript objects\<close>

text \<open>
  The object \<open>frontMatter\<close> starts as \<open>{}\<close>, an object whose prototype is
  \<open>Object.prototype\<close>. It is modelled by the map of its own properties, all strings;
  what it inherits is the same for every such object and is written out here.
  \<open>Object_prototype_names\<close> are the property names of \<open>Object.prototype\<close>.
\<close>

type_synonym front_matter = "string \<rightharpoonup> string"

definition Object_prototype_names :: "string list" where
  "Object_prototype_names =
     [''constructor'', ''__defineGetter__'', ''__defineSetter__'', ''hasOwnProperty'',
      ''__lookupGetter__'', ''__lookupSetter__'', ''isPrototypeOf'', ''propertyIsEnumerable'',
      ''toString'', ''valueOf'', ''__proto__'', ''toLocaleString'']"

text \<open>What reading a property of \<open>frontMatter\<close> gives, when it is not undefined: a string
  of the object's own, or the member that the object inherits under the name (a function,
  and for \<open>__proto__\<close> the prototype object).\<close>

datatype jsval = Str string | Member string

text \<open>\<open>obj[key]\<close>: an own property comes first, then the prototype; \<open>None\<close> is
  undefined.\<close>

definition get_property :: "front_matter \<Rightarrow> string \<Rightarrow> jsval option" where
  "get_property obj key =
     (case obj key of
        Some v \<Rightarrow> Some (Str v)
      | None \<Rightarrow> if key \<in> set Object_prototype_names then Some (Member key) else None)"

text \<open>\<open>obj[key] = value\<close> for a string \<open>value\<close>. Under the name \<open>__proto__\<close> the object
  inherits a setter, which ignores a value that is neither an object nor null: the
  assignment changes nothing. Under every other name it makes or replaces an own
  property.\<close>

definition set_property :: "front_matter \<Rightarrow> string \<Rightarrow> string \<Rightarrow> front_matter" where
  "set_property obj key v = (if key = ''__proto__'' then obj else obj(key \<mapsto> v))"

section \<open>Front matter: \<open>AppHelper.getNoCacheFrontMatter\<close>\<close>

text \<open>The callback of \<open>lines.slice(1).forEach\<close>. Its \<open>return frontMatter\<close> on a
  \<open>---\<close> line ends this call of the callback only. The destructuring
  \<open>[key, value] = line.trim().split(":")\<close> takes the first two pieces; a line that passed
  the test holds a colon, so there are two (lemma \<open>fm_line_test_pieces\<close>).\<close>

definition fm_step :: "front_matter \<Rightarrow> string \<Rightarrow> front_matter" where
  "fm_step frontMatter line =
     (if line = ''---'' then frontMatter
      else if fm_line_test line then
        (case split_on CHR '':'' (trim line) of
           key # value # _ \<Rightarrow> set_property frontMatter key value
         | _ \<Rightarrow> frontMatter)
      else frontMatter)"

definition getNoCacheFrontMatter :: "string \<Rightarrow> front_matter option" where
  "getNoCacheFrontMatter content =
     (case split_on CHR 0x0A content of
        [] \<Rightarrow> None
      | l0 # rest \<Rightarrow> if l0 \<noteq> ''---'' then None else Some (foldl fm_step Map.empty rest))"

section \<open>The date library\<close>

text \<open>
  The plugin gets its dates from the dayjs library, which is not part of the repository.
  A dayjs object is modelled by what the plugin can observe of it: a valid date carries
  its time in milliseconds since the epoch, and \<open>InvalidDate\<close> is the object dayjs builds
  from an input it cannot read (a present object, truthy like every object).
\<close>

datatype dayjs = Dayjs int | InvalidDate

text \<open>\<open>this.diff(that, "day")\<close>: the elapsed milliseconds over the milliseconds of a day,
  truncated towards zero; \<open>None\<close> is NaN, the result on an invalid date. The host's
  offset from UTC is taken to be the same at both dates.\<close>

definition MILLISECONDS_A_DAY :: int where
  "MILLISECONDS_A_DAY = 86400000"

definition abs_floor_div :: "int \<Rightarrow> int \<Rightarrow> int" where
  "abs_floor_div a b = (if a < 0 then - ((- a) div b) else a div b)"

fun diff_day :: "dayjs \<Rightarrow> dayjs \<Rightarrow> int option" where
  "diff_day (Dayjs a) (Dayjs b) = Some (abs_floor_div (a - b) MILLISECONDS_A_DAY)"
| "diff_day _ _ = None"

text \<open>What the library makes of a value that is not a number (\<open>dayjs(df)\<close>) and
  formatting (\<open>d.format("YYYY-MM-DD")\<close>) depend on the library and on the host's time
  zone: the plugin's functions take them as a parameter.\<close>

record dayjs_lib =
  parse :: "jsval \<Rightarrow> dayjs"
  format_ymd :: "dayjs \<Rightarrow> string"

section \<open>Settings: \<open>settings.ts\<close>\<close>

text \<open>The settings object is read from the stored data with \<open>Object.assign\<close>, so at run
  time the fields typed as string unions hold whatever string was stored.\<close>

record settings =
  minNumberOfDaysToShowWarning :: int
  messageTemplate :: string
  showWarningIfDataIsNotFound :: bool
  triggerToUpdate :: string
  dateToBeReferred :: string
  frontMatterKey :: string
  captureGroupPattern :: string
  excludePrefixPathPatterns :: "string list"

definition DEFAULT_SETTINGS :: settings where
  "DEFAULT_SETTINGS =
     \<lparr> minNumberOfDaysToShowWarning = 180,
       messageTemplate = ''The content has been no updated for over ${numberOfDays} days'',
       showWarningIfDataIsNotFound = False,
       triggerToUpdate = ''On open file'',
       dateToBeReferred = ''Modified time'',
       frontMatterKey = ''updated'',
       captureGroupPattern = ''^// (?<date>[0-9]{4}/[0-9]{2}/[0-9]{2})'',
       excludePrefixPathPatterns = [] \<rparr>"

section \<open>Errors\<close>

text \<open>\<open>ExhaustiveError\<close> carries the value no case covered. \<open>TypeError\<close> is the call of a
  method on \<open>null\<close>, \<open>SyntaxError\<close> the construction of a regular expression from a
  pattern that is not one.\<close>

datatype error = ExhaustiveError string | TypeError | SyntaxError

section \<open>The view's elements\<close>

datatype handler = OpenSettingsTab string

datatype element =
  Element (classes: "string list") (textContent: string) (onclick: "handler option")
    (children: "element list")

record view =
  containerEl :: element

definition ADMONITOR_CLS :: string where
  "ADMONITOR_CLS = ''old-note-admonitor__old-note-container''"

definition ADMONITOR_WARNING_CLS :: string where
  "ADMONITOR_WARNING_CLS = ''old-note-admonitor__old-note-container__warning''"

definition ADMONITOR_ERR_CLS :: string where
  "ADMONITOR_ERR_CLS = ''old-note-admonitor__old-note-container__error''"

definition VIEW_HEADER_CLS :: string where
  "VIEW_HEADER_CLS = ''view-header''"

text \<open>\<open>el.find("." + cls)\<close> is the first descendant of \<open>el\<close> with the class, in document
  order: an element comes before its own descendants, and those before its later
  siblings. The functions below walk the children of \<open>el\<close> in that order.\<close>

fun find_first :: "string \<Rightarrow> element list \<Rightarrow> element option" where
  "find_first c [] = None"
| "find_first c (Element cs t h ks # es) =
     (if c \<in> set cs then Some (Element cs t h ks)
      else (case find_first c ks of
              Some e \<Rightarrow> Some e
            | None \<Rightarrow> find_first c es))"

text \<open>\<open>el.find("." + cls)?.remove()\<close>: the forest without the first element of the class
  (and without that element's descendants), or \<open>None\<close> when no element has the class.\<close>

fun remove_first :: "string \<Rightarrow> element list \<Rightarrow> element list option" where
  "remove_first c [] = None"
| "remove_first c (Element cs t h ks # es) =
     (if c \<in> set cs then Some es
      else (case remove_first c ks of
              Some ks' \<Rightarrow> Some (Element cs t h ks' # es)
            | None \<Rightarrow>
                (case remove_first c es of
                   Some es' \<Rightarrow> Some (Element cs t h ks # es')
                 | None \<Rightarrow> None)))"

text \<open>\<open>el.find("." + cls).insertAdjacentElement("beforebegin", new)\<close>: \<open>new\<close> becomes the
  sibling just before the first element of the class; \<open>None\<close> when \<open>find\<close> returns
  \<open>null\<close>.\<close>

fun insert_before_first :: "string \<Rightarrow> element \<Rightarrow> element list \<Rightarrow> element list option" where
  "insert_before_first c new [] = None"
| "insert_before_first c new (Element cs t h ks # es) =
     (if c \<in> set cs then Some (new # Element cs t h ks # es)
      else (case insert_before_first c new ks of
              Some ks' \<Rightarrow> Some (Element cs t h ks' # es)
            | None \<Rightarrow>
                (case insert_before_first c new es of
                   Some es' \<Rightarrow> Some (Element cs t h ks # es')
                 | None \<Rightarrow> None)))"

text \<open>The number of elements of a class in a forest, at any depth.\<close>

fun count_class :: "string \<Rightarrow> element list \<Rightarrow> nat" where
  "count_class c [] = 0"
| "count_class c (Element cs t h ks # es) =
     (if c \<in> set cs then 1 else 0) + count_class c ks + count_class c es"

definition set_children :: "element \<Rightarrow> element list \<Rightarrow> element" where
  "set_children e ks = Element (classes e) (textContent e) (onclick e) ks"

definition banners :: "view \<Rightarrow> nat" where
  "banners v = count_class ADMONITOR_CLS (children (containerEl v))"

section \<open>The banner: \<open>removeAdmonitor\<close> and \<open>insertAdmonitor\<close>\<close>

definition removeAdmonitor :: "view \<Rightarrow> view" where
  "removeAdmonitor markdownView =
     (case remove_first ADMONITOR_CLS (children (containerEl markdownView)) of
        None \<Rightarrow> markdownView
      | Some ks \<Rightarrow> markdownView \<lparr> containerEl := set_children (containerEl markdownView) ks \<rparr>)"

text \<open>\<open>createDiv({text, cls})\<close> with the click handler the plugin attaches.\<close>

definition createDiv :: "string \<Rightarrow> string list \<Rightarrow> element" where
  "createDiv text cls = Element cls text (Some (OpenSettingsTab ''obsidian-task-admonitor'')) []"

text \<open>The second half of \<open>insertAdmonitor\<close>: the new element goes before the view's
  header; \<open>find(".view-header")\<close> returning \<open>null\<close> makes the method call on it throw.\<close>

definition attach :: "view \<Rightarrow> element \<Rightarrow> error + view" where
  "attach markdownView el =
     (case insert_before_first VIEW_HEADER_CLS el (children (containerEl markdownView)) of
        None \<Rightarrow> Inl TypeError
      | Some ks \<Rightarrow>
          Inr (markdownView \<lparr> containerEl := set_children (containerEl markdownView) ks \<rparr>))"

definition insertAdmonitor :: "view \<Rightarrow> string \<Rightarrow> string \<Rightarrow> error + view" where
  "insertAdmonitor markdownView text type =
     (if type = ''warning'' then
        attach markdownView (createDiv text [ADMONITOR_CLS, ADMONITOR_WARNING_CLS])
      else if type = ''error'' then
        attach markdownView (createDiv text [ADMONITOR_CLS, ADMONITOR_ERR_CLS])
      else Inl (ExhaustiveError type))"

section \<open>One evaluation: \<open>OldNoteAdmonitorPlugin.exec\<close>\<close>

text \<open>
  \<open>exec lib settings t1 t2 active arg\<close>: \<open>active\<close> is what
  \<open>getMarkdownViewInActiveLeaf()\<close> returns, \<open>arg\<close> the argument of \<open>exec\<close> (tested
  against \<open>null\<close> and not used again), \<open>t1\<close> and \<open>t2\<close> the clock at the two calls of
  \<open>dayjs()\<close>. The result is the active view after the call, and the error thrown, if
  any: a throw of \<open>insertAdmonitor\<close> comes after \<open>removeAdmonitor\<close> has changed the view.
  \<open>NaN >= n\<close> is false.
\<close>

definition render :: "dayjs_lib \<Rightarrow> settings \<Rightarrow> int \<Rightarrow> dayjs \<Rightarrow> string" where
  "render lib s numberOfDays lastUpdated =
     replace_first ''${date}'' (format_ymd lib lastUpdated)
       (replace_first ''${numberOfDays}'' (js_string_of_int numberOfDays) (messageTemplate s))"

definition finish :: "view \<Rightarrow> error + view \<Rightarrow> view option \<times> error option" where
  "finish v0 r = (case r of Inl e \<Rightarrow> (Some v0, Some e) | Inr v \<Rightarrow> (Some v, None))"

definition exec ::
  "dayjs_lib \<Rightarrow> settings \<Rightarrow> int \<Rightarrow> int \<Rightarrow> view option \<Rightarrow> 'a option \<Rightarrow> view option \<times> error option"
where
  "exec lib s t1 t2 active arg =
     (case active of
        None \<Rightarrow> (active, None)
      | Some markdownView0 \<Rightarrow>
          (case arg of
             None \<Rightarrow> (active, None)
           | Some _ \<Rightarrow>
               let markdownView = removeAdmonitor markdownView0;
                   lastUpdated = Some (Dayjs t1)
               in (case lastUpdated of
                     None \<Rightarrow>
                       if showWarningIfDataIsNotFound s
                       then finish markdownView
                              (insertAdmonitor markdownView ''The date was not found'' ''error'')
                       else (Some markdownView, None)
                   | Some lu \<Rightarrow>
                       (case diff_day (Dayjs t2) lu of
                          None \<Rightarrow> (Some markdownView, None)
                        | Some numberOfDays \<Rightarrow>
                            if numberOfDays \<ge> minNumberOfDaysToShowWarning s
                            then finish markdownView
                                   (insertAdmonitor markdownView
                                      (render lib s numberOfDays lu) ''warning'')
                            else (Some markdownView, None)))))"

section \<open>The date of a file: \<open>OldNoteAdmonitorPlugin.findDate\<close>\<close>

text \<open>A file as \<open>findDate\<close> reads it: \<open>file.stat.mtime\<close> and the text that
  \<open>app.vault.cachedRead(file)\<close> resolves to.\<close>

record tfile =
  mtime :: int
  content :: string

text \<open>
  The regular expression engine is the host's. \<open>new RegExp(pattern, "g")\<close> is \<open>None\<close> when
  the constructor throws, and otherwise the function that gives, for a line, the matches
  of \<open>line.matchAll(pattern)\<close> in order: each match is its \<open>groups\<close> property, \<open>None\<close> for
  a pattern without named groups, and a group that took no part in the match is not in
  the map.
\<close>

type_synonym js_match = "(string \<rightharpoonup> string) option"
type_synonym regexp = "string \<Rightarrow> js_match list"

text \<open>\<open>Array.from(line.matchAll(pattern)).first()?.groups?.date\<close>. The \<open>groups\<close> object
  of a match has no prototype, so it has its own properties only.\<close>

definition date_group :: "regexp \<Rightarrow> string \<Rightarrow> jsval option" where
  "date_group pattern line =
     (case pattern line of
        [] \<Rightarrow> None
      | m # _ \<Rightarrow> (case m of None \<Rightarrow> None | Some groups \<Rightarrow> map_option Str (groups ''date'')))"

text \<open>Undefined and the empty string are falsy; a non-empty string, a function and an
  object are truthy.\<close>

definition truthy :: "jsval option \<Rightarrow> bool" where
  "truthy x =
     (case x of
        None \<Rightarrow> False
      | Some v \<Rightarrow> (case v of Str text \<Rightarrow> text \<noteq> [] | Member _ \<Rightarrow> True))"

text \<open>\<open>xs.first()\<close>: the first element, or undefined.\<close>

definition first :: "jsval option list \<Rightarrow> jsval option" where
  "first xs = (case xs of [] \<Rightarrow> None | x # _ \<Rightarrow> x)"

text \<open>The local variables \<open>df\<close> and \<open>dc\<close> of \<open>findDate\<close>: \<open>fm?.[frontMatterKey]\<close> is
  undefined when \<open>fm\<close> is \<open>null\<close>.\<close>

definition front_matter_df :: "settings \<Rightarrow> tfile \<Rightarrow> jsval option" where
  "front_matter_df s file =
     (case getNoCacheFrontMatter (content file) of
        None \<Rightarrow> None
      | Some fm \<Rightarrow> get_property fm (frontMatterKey s))"

definition capture_group_dc :: "regexp \<Rightarrow> tfile \<Rightarrow> jsval option" where
  "capture_group_dc pattern file =
     first (filter truthy (map (date_group pattern) (split_on CHR 0x0A (content file))))"

text \<open>\<open>d ? dayjs(d) : undefined\<close>\<close>

definition date_of :: "dayjs_lib \<Rightarrow> jsval option \<Rightarrow> dayjs option" where
  "date_of lib d = (if truthy d then map_option (parse lib) d else None)"

definition findDate ::
  "dayjs_lib \<Rightarrow> (string \<Rightarrow> regexp option) \<Rightarrow> settings \<Rightarrow> tfile \<Rightarrow> error + dayjs option"
where
  "findDate lib new_RegExp s file =
     (if dateToBeReferred s = ''Modified time'' then Inr (Some (Dayjs (mtime file)))
      else if dateToBeReferred s = ''Front matter'' then
        Inr (date_of lib (front_matter_df s file))
      else if dateToBeReferred s = ''Capture group'' then
        (case new_RegExp (captureGroupPattern s) of
           None \<Rightarrow> Inl SyntaxError
         | Some pattern \<Rightarrow> Inr (date_of lib (capture_group_dc pattern file)))
      else Inl (ExhaustiveError (dateToBeReferred s)))"

section \<open>A host for the examples\<close>

text \<open>
  The closed examples below need a date library and a regular expression engine. This
  one lives in the UTC time zone. Its parser reads the two ten-character forms
  \<open>YYYY-MM-DD\<close> and \<open>YYYY/MM/DD\<close>, with a year from 1000, a month from 01 to 12 and a
  day from 01 to 31 (a day past the end of the month runs into the next month), and
  nothing else (dayjs reads more). A function or an object is no date to it: dayjs hands
  it to \<open>new Date\<close>, which reads its string form, such as
  \<open>function Object() { [native code] }\<close>. Its engine knows the pattern of
  \<open>DEFAULT_SETTINGS\<close> and no other.
\<close>

definition days_from_civil :: "int \<Rightarrow> int \<Rightarrow> int \<Rightarrow> int" where
  "days_from_civil y m d =
     (let y' = (if m \<le> 2 then y - 1 else y);
          era = y' div 400;
          yoe = y' - era * 400;
          doy = (153 * (if m > 2 then m - 3 else m + 9) + 2) div 5 + d - 1;
          doe = yoe * 365 + yoe div 4 - yoe div 100 + doy
      in era * 146097 + doe - 719468)"

definition civil_from_days :: "int \<Rightarrow> int \<times> int \<times> int" where
  "civil_from_days z0 =
     (let z = z0 + 719468;
          era = z div 146097;
          doe = z mod 146097;
          yoe = (doe - doe div 1460 + doe div 36524 - doe div 146096) div 365;
          doy = doe - (365 * yoe + yoe div 4 - yoe div 100);
          mp = (5 * doy + 2) div 153;
          d = doy - (153 * mp + 2) div 5 + 1;
          m = (if mp < 10 then mp + 3 else mp - 9);
          y = yoe + era * 400
      in (if m \<le> 2 then y + 1 else y, m, d))"

definition pad_start :: "nat \<Rightarrow> string \<Rightarrow> string" where
  "pad_start w s = replicate (w - length s) CHR ''0'' @ s"

fun utc_format_ymd :: "dayjs \<Rightarrow> string" where
  "utc_format_ymd (Dayjs ms) =
     (case civil_from_days (ms div MILLISECONDS_A_DAY) of
        (y, m, d) \<Rightarrow>
          pad_start 4 (js_string_of_int y) @ ''-'' @ pad_start 2 (js_string_of_int m)
            @ ''-'' @ pad_start 2 (js_string_of_int d))"
| "utc_format_ymd InvalidDate = ''Invalid Date''"

definition is_digit :: "char \<Rightarrow> bool" where
  "is_digit c = ((48 :: nat) \<le> of_char c \<and> (of_char c :: nat) \<le> 57)"

definition number_of :: "string \<Rightarrow> int" where
  "number_of ds = foldl (\<lambda>n c. 10 * n + (int (of_char c) - 48)) 0 ds"

definition is_separator :: "char \<Rightarrow> bool" where
  "is_separator c = (c = CHR ''-'' \<or> c = CHR ''/'')"

fun utc_parse :: "string \<Rightarrow> dayjs" where
  "utc_parse [y1, y2, y3, y4, s1, m1, m2, s2, d1, d2] =
     (if list_all is_digit [y1, y2, y3, y4, m1, m2, d1, d2] \<and> is_separator s1 \<and> is_separator s2
         \<and> 1000 \<le> number_of [y1, y2, y3, y4]
         \<and> 1 \<le> number_of [m1, m2] \<and> number_of [m1, m2] \<le> 12
         \<and> 1 \<le> number_of [d1, d2] \<and> number_of [d1, d2] \<le> 31
      then Dayjs (days_from_civil (number_of [y1, y2, y3, y4]) (number_of [m1, m2])
                    (number_of [d1, d2]) * MILLISECONDS_A_DAY)
      else InvalidDate)"
| "utc_parse _ = InvalidDate"

fun utc_dayjs_of :: "jsval \<Rightarrow> dayjs" where
  "utc_dayjs_of (Str text) = utc_parse text"
| "utc_dayjs_of (Member name) = InvalidDate"

definition utc_dayjs :: dayjs_lib where
  "utc_dayjs = \<lparr> parse = utc_dayjs_of, format_ymd = utc_format_ymd \<rparr>"

text \<open>The default pattern \<open>^// (?<date>[0-9]{4}/[0-9]{2}/[0-9]{2})\<close> matches at the start
  of a line only, so a line has one match at most.\<close>

definition default_pattern :: regexp where
  "default_pattern line =
     (if take 3 line = ''// '' \<and> length line \<ge> 13
         \<and> list_all is_digit (take 4 (drop 3 line)) \<and> line ! 7 = CHR ''/''
         \<and> list_all is_digit (take 2 (drop 8 line)) \<and> line ! 10 = CHR ''/''
         \<and> list_all is_digit (take 2 (drop 11 line))
      then [Some [''date'' \<mapsto> take 10 (drop 3 line)]]
      else [])"

definition default_RegExp :: "string \<Rightarrow> regexp option" where
  "default_RegExp p = (if p = captureGroupPattern DEFAULT_SETTINGS then Some default_pattern else None)"

text \<open>A view as the host builds it: a header and the content under it. \<open>note_view\<close> has
  no banner.\<close>

definition header_el :: element where
  "header_el = Element [''view-header''] ''note'' None []"

definition content_el :: element where
  "content_el = Element [''view-content''] ''text of the note'' None []"

definition view_of :: "element list \<Rightarrow> view" where
  "view_of es = \<lparr> containerEl = Element [''workspace-leaf-content''] [] None es \<rparr>"

definition note_view :: view where
  "note_view = view_of [header_el, content_el]"

text \<open>Views, settings and files for the examples.\<close>

definition one_banner_view :: view where
  "one_banner_view =
     view_of [createDiv ''first'' [ADMONITOR_CLS, ADMONITOR_WARNING_CLS], header_el, content_el]"

definition two_banner_view :: view where
  "two_banner_view =
     view_of [createDiv ''first'' [ADMONITOR_CLS, ADMONITOR_WARNING_CLS],
              createDiv ''second'' [ADMONITOR_CLS, ADMONITOR_ERR_CLS], header_el, content_el]"

definition days_template_settings :: settings where
  "days_template_settings =
     DEFAULT_SETTINGS \<lparr> minNumberOfDaysToShowWarning := 0,
                        messageTemplate := ''${numberOfDays} days since ${date}'' \<rparr>"

definition front_matter_settings :: settings where
  "front_matter_settings = DEFAULT_SETTINGS \<lparr> dateToBeReferred := ''Front matter'' \<rparr>"

definition unreadable_date_file :: tfile where
  "unreadable_date_file = \<lparr> mtime = 0, content = ''---\<newline>updated: not a date\<newline>---'' \<rparr>"

definition constructor_key_settings :: settings where
  "constructor_key_settings =
     DEFAULT_SETTINGS \<lparr> dateToBeReferred := ''Front matter'', frontMatterKey := ''constructor'' \<rparr>"

definition other_key_file :: tfile where
  "other_key_file = \<lparr> mtime = 0, content = ''---\<newline>a: 1\<newline>---'' \<rparr>"

definition no_date_file :: tfile where
  "no_date_file = \<lparr> mtime = 0, content = ''a note without front matter'' \<rparr>"

definition epoch_file :: tfile where
  "epoch_file = \<lparr> mtime = 0, content = ''a note from 1970'' \<rparr>"

definition half_year_old_file :: tfile where
  "half_year_old_file = \<lparr> mtime = 1688515200000, content = ''a note from July 2023'' \<rparr>"

definition warn_missing_settings :: settings where
  "warn_missing_settings =
     DEFAULT_SETTINGS \<lparr> showWarningIfDataIsNotFound := True,
                        dateToBeReferred := ''Front matter'' \<rparr>"

definition capture_group_settings :: settings where
  "capture_group_settings = DEFAULT_SETTINGS \<lparr> dateToBeReferred := ''Capture group'' \<rparr>"

definition dated_line_file :: tfile where
  "dated_line_file = \<lparr> mtime = 0, content = ''title\<newline>// 2022/05/01 note'' \<rparr>"

section \<open>Properties of the front matter extraction\<close>

lemma split_on_not_Nil [simp]: "split_on c s \<noteq> []"
  by (induction s) (auto split: list.splits)

lemma split_on_two: "c \<in> set s \<Longrightarrow> \<exists>k v r. split_on c s = k # v # r"
proof (induction s)
  case Nil then show ?case by simp
next
  case (Cons x xs)
  show ?case
  proof (cases "x = c")
    case True
    obtain w ws where "split_on c xs = w # ws" by (cases "split_on c xs") auto
    with True show ?thesis by simp
  next
    case False
    with Cons.prems have "c \<in> set xs" by simp
    from Cons.IH [OF this] obtain k v r where "split_on c xs = k # v # r" by blast
    with False show ?thesis by simp
  qed
qed

lemma mem_dropWhile: "x \<in> set s \<Longrightarrow> \<not> P x \<Longrightarrow> x \<in> set (dropWhile P s)"
  by (induction s) auto

lemma colon_in_trim: "CHR '':'' \<in> set s \<Longrightarrow> CHR '':'' \<in> set (trim s)"
  unfolding trim_def by (simp add: mem_dropWhile js_whitespace_def)

lemma fm_line_test_colon: "fm_line_test s \<Longrightarrow> CHR '':'' \<in> set s"
  by (induction s rule: fm_line_test.induct) auto

lemma fm_line_test_pieces:
  "fm_line_test line \<Longrightarrow> \<exists>key value rest. split_on CHR '':'' (trim line) = key # value # rest"
  by (rule split_on_two, rule colon_in_trim, rule fm_line_test_colon)

lemma fm_line_test_shape:
  "fm_line_test line \<Longrightarrow> \<exists>pre post. pre \<noteq> [] \<and> post \<noteq> [] \<and> line = pre @ '': '' @ post"
proof (induction line rule: fm_line_test.induct)
  case (1 a b c d rest)
  show ?case
  proof (cases "dot a \<and> b = CHR '':'' \<and> c = CHR '' '' \<and> dot d")
    case True
    then have "a # b # c # d # rest = [a] @ '': '' @ (d # rest)" by simp
    then show ?thesis by blast
  next
    case False
    with 1 obtain pre post where "pre \<noteq> []" "post \<noteq> []" "b # c # d # rest = pre @ '': '' @ post"
      by auto
    then have "a # b # c # d # rest = (a # pre) @ '': '' @ post" by simp
    with \<open>post \<noteq> []\<close> show ?thesis by blast
  qed
qed auto

lemma fm_step_entry:
  assumes "fm_step m line key = Some value"
  shows "m key = Some value
         \<or> (fm_line_test line \<and> (\<exists>rest. split_on CHR '':'' (trim line) = key # value # rest))"
  using assms unfolding fm_step_def set_property_def
  by (auto split: if_splits list.splits)

lemma foldl_fm_step_entry:
  "foldl fm_step m ls key = Some value \<Longrightarrow>
     m key = Some value
     \<or> (\<exists>line \<in> set ls. fm_line_test line
            \<and> (\<exists>rest. split_on CHR '':'' (trim line) = key # value # rest))"
proof (induction ls arbitrary: m)
  case Nil then show ?case by simp
next
  case (Cons l ls)
  from Cons.prems have "foldl fm_step (fm_step m l) ls key = Some value" by simp
  from Cons.IH [OF this] show ?case
  proof
    assume "fm_step m l key = Some value"
    from fm_step_entry [OF this] show ?thesis by auto
  next
    assume "\<exists>line\<in>set ls. fm_line_test line
              \<and> (\<exists>rest. split_on CHR '':'' (trim line) = key # value # rest)"
    then show ?thesis by auto
  qed
qed

lemma getNoCacheFrontMatter_Some:
  "getNoCacheFrontMatter doc = Some fm \<Longrightarrow>
     fm = foldl fm_step Map.empty (tl (split_on CHR 0x0A doc))"
  unfolding getNoCacheFrontMatter_def by (auto split: list.splits if_splits)

text \<open>
  Claim C10. An entry is recorded for a line only when the line holds a colon directly
  followed by a space with at least one character on each side: every entry of the
  returned mapping comes from a line after the first that passes the test \<open>.+: .+\<close>,
  has that shape, and splits into the entry's key and value. The lines \<open>key:value\<close> and
  \<open>key: \<close> leave the mapping as it is.
\<close>

theorem front_matter_entry_needs_colon_space:
  "fm_step m ''key:value'' = m \<and> fm_step m ''key: '' = m \<and>
   (\<forall>doc fm key v.
      getNoCacheFrontMatter doc = Some fm \<and> fm key = Some v \<longrightarrow>
      (\<exists>line \<in> set (tl (split_on CHR 0x0A doc)).
         fm_line_test line
         \<and> (\<exists>pre post. pre \<noteq> [] \<and> post \<noteq> [] \<and> line = pre @ '': '' @ post)
         \<and> (\<exists>rest. split_on CHR '':'' (trim line) = key # v # rest)))"
proof (intro conjI allI impI)
  show "fm_step m ''key:value'' = m" by (simp add: fm_step_def)
  show "fm_step m ''key: '' = m" by (simp add: fm_step_def)
next
  fix doc fm key v
  assume a: "getNoCacheFrontMatter doc = Some fm \<and> fm key = Some v"
  then have "foldl fm_step Map.empty (tl (split_on CHR 0x0A doc)) key = Some v"
    using getNoCacheFrontMatter_Some by blast
  from foldl_fm_step_entry [OF this]
  obtain line where l: "line \<in> set (tl (split_on CHR 0x0A doc))" "fm_line_test line"
      "\<exists>rest. split_on CHR '':'' (trim line) = key # v # rest"
    by auto
  from fm_line_test_shape [OF l(2)] l
  show "\<exists>line \<in> set (tl (split_on CHR 0x0A doc)).
         fm_line_test line
         \<and> (\<exists>pre post. pre \<noteq> [] \<and> post \<noteq> [] \<and> line = pre @ '': '' @ post)
         \<and> (\<exists>rest. split_on CHR '':'' (trim line) = key # v # rest)"
    by blast
qed

text \<open>The theorem at the text \<open>---\<close>, \<open>updated: 2024-01-01\<close>, \<open>---\<close>.\<close>

theorem front_matter_entry_needs_colon_space_witness:
  "getNoCacheFrontMatter ''---\<newline>updated: 2024-01-01\<newline>---\<newline>''
     = Some [''updated'' \<mapsto> '' 2024-01-01'']
   \<and> [''updated'' \<mapsto> '' 2024-01-01''] ''updated'' = Some '' 2024-01-01''
   \<and> (\<exists>line \<in> set (tl (split_on CHR 0x0A ''---\<newline>updated: 2024-01-01\<newline>---\<newline>'')).
         fm_line_test line
         \<and> (\<exists>pre post. pre \<noteq> [] \<and> post \<noteq> [] \<and> line = pre @ '': '' @ post)
         \<and> (\<exists>rest. split_on CHR '':'' (trim line) = ''updated'' # '' 2024-01-01'' # rest))"
proof -
  have h: "getNoCacheFrontMatter ''---\<newline>updated: 2024-01-01\<newline>---\<newline>''
             = Some [''updated'' \<mapsto> '' 2024-01-01'']
           \<and> [''updated'' \<mapsto> '' 2024-01-01''] ''updated'' = Some '' 2024-01-01''"
    by (simp add: getNoCacheFrontMatter_def fm_step_def set_property_def trim_def
      js_whitespace_def dot_def)
  from front_matter_entry_needs_colon_space [of Map.empty, THEN conjunct2, THEN conjunct2,
      THEN spec, THEN spec, THEN spec, THEN spec, THEN mp, OF h] h
  show ?thesis by blast
qed

text \<open>
  Claim C3. The claim says that no line after the closing \<open>---\<close> contributes an
  entry. The \<open>return\<close> on a \<open>---\<close> line leaves the callback of \<open>forEach\<close>, not the loop: in the
  text \<open>---\<close>, \<open>a: 1\<close>, \<open>---\<close>, \<open>b: 2\<close> the line after the closing delimiter is
  recorded.
\<close>

theorem front_matter_does_not_stop_at_closing_delimiter:
  "getNoCacheFrontMatter ''---\<newline>a: 1\<newline>---\<newline>b: 2''
     = Some [''a'' \<mapsto> '' 1'', ''b'' \<mapsto> '' 2'']"
  by (simp add: getNoCacheFrontMatter_def fm_step_def set_property_def trim_def
      js_whitespace_def dot_def)

text \<open>
  Claim C4. The claim says that key and value are both trimmed. The line is trimmed and
  then split at every colon, so the value keeps the space after the colon and the key keeps the
  space before it: the text \<open>---\<close>, \<open>updated: 2024-01-01\<close>, \<open>---\<close> gives the value
  \<open> 2024-01-01\<close> with its leading space, and the line \<open>key: a: b\<close> the value \<open> a\<close>.
\<close>

theorem front_matter_value_keeps_leading_space:
  "getNoCacheFrontMatter ''---\<newline>updated: 2024-01-01\<newline>---\<newline>''
     = Some [''updated'' \<mapsto> '' 2024-01-01'']
   \<and> getNoCacheFrontMatter ''---\<newline>key: a: b'' = Some [''key'' \<mapsto> '' a'']
   \<and> getNoCacheFrontMatter ''---\<newline>  key : v  '' = Some [''key '' \<mapsto> '' v'']"
  by (simp add: getNoCacheFrontMatter_def fm_step_def set_property_def trim_def
      js_whitespace_def dot_def)

section \<open>Properties of the banner\<close>

lemma remove_first_None_iff: "remove_first c es = None \<longleftrightarrow> count_class c es = 0"
  by (induction c es rule: remove_first.induct) (auto split: option.splits)

lemma find_first_None_iff: "find_first c es = None \<longleftrightarrow> count_class c es = 0"
  by (induction c es rule: find_first.induct) (auto split: option.splits)

lemma remove_first_finds: "remove_first c es = None \<longleftrightarrow> find_first c es = None"
  by (simp add: remove_first_None_iff find_first_None_iff)

lemma remove_first_count:
  "remove_first c es = Some es' \<Longrightarrow> count_class c es' < count_class c es"
proof (induction c es arbitrary: es' rule: remove_first.induct)
  case (1 c) then show ?case by simp
next
  case (2 c cs t h ks es)
  show ?case
  proof (cases "c \<in> set cs")
    case True
    with "2.prems" show ?thesis by auto
  next
    case False
    show ?thesis
    proof (cases "remove_first c ks")
      case (Some ks')
      with False "2.prems" have "es' = Element cs t h ks' # es" by simp
      moreover from "2.IH"(1) [OF False Some] have "count_class c ks' < count_class c ks" .
      ultimately show ?thesis using False by simp
    next
      case None
      with False "2.prems" obtain es'' where r: "remove_first c es = Some es''"
        and e: "es' = Element cs t h ks # es''"
        by (auto split: option.splits)
      from "2.IH"(2) [OF False None r] e False show ?thesis by simp
    qed
  qed
qed

lemma insert_before_first_count:
  "insert_before_first t new es = Some es' \<Longrightarrow>
     count_class c es' = count_class c es + count_class c [new]"
proof (induction t new es arbitrary: es' rule: insert_before_first.induct)
  case (1 t new) then show ?case by simp
next
  case (2 t new cs tx h ks es)
  obtain ncs ntx nh nks where n: "new = Element ncs ntx nh nks" by (cases new)
  show ?case
  proof (cases "t \<in> set cs")
    case True
    with "2.prems" n show ?thesis by auto
  next
    case False
    show ?thesis
    proof (cases "insert_before_first t new ks")
      case (Some ks')
      with False "2.prems" have "es' = Element cs tx h ks' # es" by simp
      moreover from "2.IH"(1) [OF False Some]
      have "count_class c ks' = count_class c ks + count_class c [new]" .
      ultimately show ?thesis by simp
    next
      case None
      with False "2.prems" obtain es'' where r: "insert_before_first t new es = Some es''"
        and e: "es' = Element cs tx h ks # es''"
        by (auto split: option.splits)
      from "2.IH"(2) [OF False None r] e show ?thesis by simp
    qed
  qed
qed

lemma remove_after_insert:
  assumes "count_class c es = 0" and "c \<in> set (classes new)"
    and "insert_before_first t new es = Some es'"
  shows "remove_first c es' = Some es"
  using assms
proof (induction t new es arbitrary: es' rule: insert_before_first.induct)
  case (1 t new) then show ?case by simp
next
  case (2 t new cs tx h ks es)
  obtain ncs ntx nh nks where n: "new = Element ncs ntx nh nks" by (cases new)
  from "2.prems"(1) have nc: "c \<notin> set cs" and zk: "count_class c ks = 0"
    and ze: "count_class c es = 0"
    by (auto split: if_splits)
  show ?case
  proof (cases "t \<in> set cs")
    case True
    with "2.prems" n show ?thesis by auto
  next
    case False
    show ?thesis
    proof (cases "insert_before_first t new ks")
      case (Some ks')
      with False "2.prems" have e: "es' = Element cs tx h ks' # es" by simp
      from "2.IH"(1) [OF False zk "2.prems"(2) Some] have "remove_first c ks' = Some ks" .
      with e nc show ?thesis by simp
    next
      case None
      with False "2.prems" obtain es'' where r: "insert_before_first t new es = Some es''"
        and e: "es' = Element cs tx h ks # es''"
        by (auto split: option.splits)
      from "2.IH"(2) [OF False None ze "2.prems"(2) r] have "remove_first c es'' = Some es" .
      moreover from zk have "remove_first c ks = None" by (simp add: remove_first_None_iff)
      ultimately show ?thesis using e nc by simp
    qed
  qed
qed

lemma find_after_insert:
  assumes "count_class c es = 0" and "c \<in> set (classes new)"
    and "insert_before_first t new es = Some es'"
  shows "find_first c es' = Some new"
  using assms
proof (induction t new es arbitrary: es' rule: insert_before_first.induct)
  case (1 t new) then show ?case by simp
next
  case (2 t new cs tx h ks es)
  obtain ncs ntx nh nks where n: "new = Element ncs ntx nh nks" by (cases new)
  from "2.prems"(1) have nc: "c \<notin> set cs" and zk: "count_class c ks = 0"
    and ze: "count_class c es = 0"
    by (auto split: if_splits)
  show ?case
  proof (cases "t \<in> set cs")
    case True
    with "2.prems" n show ?thesis by auto
  next
    case False
    show ?thesis
    proof (cases "insert_before_first t new ks")
      case (Some ks')
      with False "2.prems" have e: "es' = Element cs tx h ks' # es" by simp
      from "2.IH"(1) [OF False zk "2.prems"(2) Some] have "find_first c ks' = Some new" .
      with e nc show ?thesis by simp
    next
      case None
      with False "2.prems" obtain es'' where r: "insert_before_first t new es = Some es''"
        and e: "es' = Element cs tx h ks # es''"
        by (auto split: option.splits)
      from "2.IH"(2) [OF False None ze "2.prems"(2) r] have "find_first c es'' = Some new" .
      moreover from zk have "find_first c ks = None" by (simp add: find_first_None_iff)
      ultimately show ?thesis using e nc by simp
    qed
  qed
qed

lemma set_children_simps [simp]:
  "children (set_children e ks) = ks"
  "set_children (set_children e ks) ks' = set_children e ks'"
  "set_children e (children e) = e"
  by (simp_all add: set_children_def)

lemma removeAdmonitor_no_banner: "banners v = 0 \<Longrightarrow> removeAdmonitor v = v"
  by (simp add: removeAdmonitor_def banners_def remove_first_None_iff [symmetric])

lemma removeAdmonitor_clears: "banners v \<le> 1 \<Longrightarrow> banners (removeAdmonitor v) = 0"
proof (cases "remove_first ADMONITOR_CLS (children (containerEl v))")
  case None
  assume "banners v \<le> 1"
  from None have "removeAdmonitor v = v" by (simp add: removeAdmonitor_def)
  moreover from None have "banners v = 0" by (simp add: banners_def remove_first_None_iff)
  ultimately show ?thesis by simp
next
  case (Some ks)
  assume le: "banners v \<le> 1"
  from remove_first_count [OF Some] le have "count_class ADMONITOR_CLS ks = 0"
    by (simp add: banners_def)
  with Some show ?thesis by (simp add: removeAdmonitor_def banners_def)
qed

lemma attach_banners:
  "attach v el = Inr v' \<Longrightarrow> banners v' = banners v + count_class ADMONITOR_CLS [el]"
  unfolding attach_def banners_def
  by (auto split: option.splits simp: insert_before_first_count)

lemma attach_then_remove:
  assumes "banners v = 0" and "ADMONITOR_CLS \<in> set (classes el)" and "attach v el = Inr v'"
  shows "removeAdmonitor v' = v"
proof -
  from assms(3) obtain ks where
    i: "insert_before_first VIEW_HEADER_CLS el (children (containerEl v)) = Some ks"
    and v': "v' = v \<lparr> containerEl := set_children (containerEl v) ks \<rparr>"
    by (auto simp: attach_def split: option.splits)
  from assms(1) have "count_class ADMONITOR_CLS (children (containerEl v)) = 0"
    by (simp add: banners_def)
  from remove_after_insert [OF this assms(2) i] v' show ?thesis
    by (simp add: removeAdmonitor_def)
qed

lemma attach_then_find:
  assumes "banners v = 0" and "ADMONITOR_CLS \<in> set (classes el)" and "attach v el = Inr v'"
  shows "find_first ADMONITOR_CLS (children (containerEl v')) = Some el"
proof -
  from assms(3) obtain ks where
    i: "insert_before_first VIEW_HEADER_CLS el (children (containerEl v)) = Some ks"
    and v': "v' = v \<lparr> containerEl := set_children (containerEl v) ks \<rparr>"
    by (auto simp: attach_def split: option.splits)
  from assms(1) have "count_class ADMONITOR_CLS (children (containerEl v)) = 0"
    by (simp add: banners_def)
  from find_after_insert [OF this assms(2) i] v' show ?thesis by simp
qed

lemma insertAdmonitor_attach:
  "insertAdmonitor v text type = Inr v' \<Longrightarrow>
     \<exists>kind. attach v (createDiv text [ADMONITOR_CLS, kind]) = Inr v'"
  unfolding insertAdmonitor_def by (auto split: if_splits)

lemma count_createDiv [simp]:
  "count_class ADMONITOR_CLS [createDiv text (ADMONITOR_CLS # cls)] = 1"
  by (simp add: createDiv_def)

lemma classes_createDiv [simp]: "classes (createDiv text cls) = cls"
  by (simp add: createDiv_def)

lemma insertAdmonitor_banners:
  "insertAdmonitor v text type = Inr v' \<Longrightarrow> banners v' = banners v + 1"
  by (auto dest!: insertAdmonitor_attach attach_banners)

text \<open>On a view without banner, removing the banner that \<open>insertAdmonitor\<close> added and
  inserting again gives the same result.\<close>

lemma insertAdmonitor_rerun:
  assumes "banners v = 0" 
  shows "finish (removeAdmonitor (the (fst (finish v (insertAdmonitor v text type)))))
           (insertAdmonitor (removeAdmonitor (the (fst (finish v (insertAdmonitor v text type))))) text type)
         = finish v (insertAdmonitor v text type)"
proof (cases "insertAdmonitor v text type")
  case (Inl e)
  with assms show ?thesis by (simp add: finish_def removeAdmonitor_no_banner)
next
  case (Inr v')
  from insertAdmonitor_attach [OF Inr] obtain kind where
    "attach v (createDiv text [ADMONITOR_CLS, kind]) = Inr v'" by blast
  from attach_then_remove [OF assms _ this] have "removeAdmonitor v' = v" by simp
  with Inr show ?thesis by (simp add: finish_def)
qed

text \<open>
  Claim C8. Two evaluations in a row, with the same settings and on a view that hosts at
  most one banner, end in the same state: the second evaluation returns the view and the
  outcome that the first one returned. The clock may move between the two, as long as
  the number of days and the formatted date that the evaluation reads from it are the
  same.
\<close>

theorem exec_twice_same_banner:
  assumes "banners v \<le> 1"
    and "diff_day (Dayjs t2') (Dayjs t1') = diff_day (Dayjs t2) (Dayjs t1)"
    and "format_ymd lib (Dayjs t1') = format_ymd lib (Dayjs t1)"
    and "exec lib s t1 t2 (Some v) arg = (active', e)"
  shows "exec lib s t1' t2' active' arg = (active', e)"
proof (cases arg)
  case None
  with assms(4) show ?thesis by (auto simp: exec_def)
next
  case (Some a)
  define v1 where "v1 = removeAdmonitor v"
  define n where "n = abs_floor_div (t2 - t1) MILLISECONDS_A_DAY"
  from assms(1) have z: "banners v1 = 0" by (simp add: v1_def removeAdmonitor_clears)
  then have r: "removeAdmonitor v1 = v1" by (rule removeAdmonitor_no_banner)
  from assms(2) have n': "abs_floor_div (t2' - t1') MILLISECONDS_A_DAY = n" by (simp add: n_def)
  from assms(3) have rd: "render lib s n (Dayjs t1') = render lib s n (Dayjs t1)"
    by (simp add: render_def)
  show ?thesis
  proof (cases "n \<ge> minNumberOfDaysToShowWarning s")
    case False
    with assms(4) Some have "active' = Some v1" "e = None"
      by (auto simp: exec_def v1_def n_def Let_def)
    with False Some r n' show ?thesis by (simp add: exec_def Let_def)
  next
    case True
    let ?text = "render lib s n (Dayjs t1)"
    from True assms(4) Some
    have res: "(active', e) = finish v1 (insertAdmonitor v1 ?text ''warning'')"
      by (auto simp: exec_def v1_def n_def Let_def)
    then obtain w where w: "active' = Some w" by (auto simp: finish_def split: sum.splits)
    with res have "w = the (fst (finish v1 (insertAdmonitor v1 ?text ''warning'')))"
      by (metis fst_conv option.sel)
    with insertAdmonitor_rerun [OF z, of ?text "''warning''"] res
    have "finish (removeAdmonitor w) (insertAdmonitor (removeAdmonitor w) ?text ''warning'')
            = (active', e)" by simp
    with True Some w n' rd show ?thesis by (simp add: exec_def Let_def)
  qed
qed

text \<open>The theorem at a view that hosts one banner, with the clock five seconds later at
  the second evaluation.\<close>

theorem exec_twice_same_banner_witness:
  "banners one_banner_view \<le> 1
   \<and> diff_day (Dayjs 1704067205001) (Dayjs 1704067205000)
       = diff_day (Dayjs 1704067200001) (Dayjs 1704067200000)
   \<and> format_ymd utc_dayjs (Dayjs 1704067205000) = format_ymd utc_dayjs (Dayjs 1704067200000)
   \<and> exec utc_dayjs days_template_settings 1704067200000 1704067200001
        (Some one_banner_view) (Some ())
       = (Some (view_of [createDiv ''0 days since 2024-01-01''
                           [ADMONITOR_CLS, ADMONITOR_WARNING_CLS], header_el, content_el]),
          None)
   \<and> exec utc_dayjs days_template_settings 1704067205000 1704067205001
        (Some (view_of [createDiv ''0 days since 2024-01-01''
                           [ADMONITOR_CLS, ADMONITOR_WARNING_CLS], header_el, content_el]))
        (Some ())
       = (Some (view_of [createDiv ''0 days since 2024-01-01''
                           [ADMONITOR_CLS, ADMONITOR_WARNING_CLS], header_el, content_el]),
          None)"
proof -
  have h1: "banners one_banner_view \<le> 1" by code_simp
  have h2: "diff_day (Dayjs 1704067205001) (Dayjs 1704067205000)
              = diff_day (Dayjs 1704067200001) (Dayjs 1704067200000)" by code_simp
  have h3: "format_ymd utc_dayjs (Dayjs 1704067205000)
              = format_ymd utc_dayjs (Dayjs 1704067200000)" by code_simp
  have h4: "exec utc_dayjs days_template_settings 1704067200000 1704067200001
              (Some one_banner_view) (Some ())
            = (Some (view_of [createDiv ''0 days since 2024-01-01''
                           [ADMONITOR_CLS, ADMONITOR_WARNING_CLS], header_el, content_el]),
               None)" by code_simp
  from exec_twice_same_banner [OF h1 h2 h3 h4] h1 h2 h3 h4 show ?thesis by simp
qed

text \<open>
  Claim C2. The claim says that \<open>insertAdmonitor\<close> removes the banner first, so that two
  calls in a row leave one banner with the second call's text. \<open>insertAdmonitor\<close> does not call
  \<open>removeAdmonitor\<close>: two calls in a row leave two banners, and the first banner of the
  view, the one \<open>removeAdmonitor\<close> would find, is the first call's.
\<close>

theorem insert_twice_two_banners:
  "insertAdmonitor note_view ''first'' ''warning'' = Inr one_banner_view
   \<and> insertAdmonitor one_banner_view ''second'' ''error'' = Inr two_banner_view
   \<and> banners two_banner_view = 2
   \<and> find_first ADMONITOR_CLS (children (containerEl two_banner_view))
       = Some (createDiv ''first'' [ADMONITOR_CLS, ADMONITOR_WARNING_CLS])"
  by code_simp

text \<open>
  Claim C2 as the code has it. A call of \<open>insertAdmonitor\<close> that returns adds exactly one
  banner and removes none; on a view without banner, the banner of the view is then the
  new element, with the call's text and the class of the call's kind. It is \<open>exec\<close> that
  calls \<open>removeAdmonitor\<close> before its one call of \<open>insertAdmonitor\<close>: on a view that hosts
  at most one banner, an evaluation leaves at most one banner.
\<close>

theorem exec_keeps_single_banner:
  "(insertAdmonitor v text type = Inr v' \<longrightarrow> banners v' = banners v + 1)
   \<and> (banners v = 0 \<and> insertAdmonitor v text type = Inr v' \<longrightarrow>
        find_first ADMONITOR_CLS (children (containerEl v'))
          = Some (createDiv text [ADMONITOR_CLS,
                    if type = ''warning'' then ADMONITOR_WARNING_CLS else ADMONITOR_ERR_CLS]))
   \<and> (banners v \<le> 1 \<and> exec lib s t1 t2 (Some v) arg = (Some w, e) \<longrightarrow> banners w \<le> 1)"
proof (intro conjI impI)
  assume "insertAdmonitor v text type = Inr v'"
  then show "banners v' = banners v + 1" by (rule insertAdmonitor_banners)
next
  assume a: "banners v = 0 \<and> insertAdmonitor v text type = Inr v'"
  let ?el = "createDiv text [ADMONITOR_CLS,
                    if type = ''warning'' then ADMONITOR_WARNING_CLS else ADMONITOR_ERR_CLS]"
  from a have "attach v ?el = Inr v'"
    by (auto simp: insertAdmonitor_def split: if_splits)
  from attach_then_find [OF _ _ this] a
  show "find_first ADMONITOR_CLS (children (containerEl v')) = Some ?el" by simp
next
  assume a: "banners v \<le> 1 \<and> exec lib s t1 t2 (Some v) arg = (Some w, e)"
  define v1 where "v1 = removeAdmonitor v"
  from a have z: "banners v1 = 0" by (simp add: v1_def removeAdmonitor_clears)
  have fin: "banners w \<le> 1" if f: "finish v1 (insertAdmonitor v1 tx ty) = (Some w, e)" for tx ty
  proof (cases "insertAdmonitor v1 tx ty")
    case (Inl err)
    with f z show ?thesis by (simp add: finish_def)
  next
    case (Inr v2)
    with f have "w = v2" by (simp add: finish_def)
    with insertAdmonitor_banners [OF Inr] z show ?thesis by simp
  qed
  show "banners w \<le> 1"
  proof (cases arg)
    case None
    with a show ?thesis by (auto simp: exec_def)
  next
    case (Some x)
    with a have "(Some w, e) = (Some v1, None)
        \<or> (\<exists>text type. finish v1 (insertAdmonitor v1 text type) = (Some w, e))"
      by (auto simp: exec_def Let_def v1_def split: if_splits)
    with z fin show ?thesis by auto
  qed
qed

text \<open>The theorem at the view of a note and at the view with one banner.\<close>

theorem exec_keeps_single_banner_witness:
  "insertAdmonitor note_view ''first'' ''warning'' = Inr one_banner_view
   \<and> banners note_view = 0
   \<and> banners one_banner_view \<le> 1
   \<and> exec utc_dayjs days_template_settings 1704067200000 1704067200001
        (Some one_banner_view) (Some ())
       = (Some (view_of [createDiv ''0 days since 2024-01-01''
                           [ADMONITOR_CLS, ADMONITOR_WARNING_CLS], header_el, content_el]),
          None)
   \<and> banners one_banner_view = banners note_view + 1
   \<and> find_first ADMONITOR_CLS (children (containerEl one_banner_view))
       = Some (createDiv ''first'' [ADMONITOR_CLS, ADMONITOR_WARNING_CLS])
   \<and> banners (view_of [createDiv ''0 days since 2024-01-01''
                           [ADMONITOR_CLS, ADMONITOR_WARNING_CLS], header_el, content_el]) \<le> 1"
proof -
  have h1: "insertAdmonitor note_view ''first'' ''warning'' = Inr one_banner_view" by code_simp
  have h2: "banners note_view = 0" by code_simp
  have h3: "banners one_banner_view \<le> 1" by code_simp
  have h4: "exec utc_dayjs days_template_settings 1704067200000 1704067200001
              (Some one_banner_view) (Some ())
            = (Some (view_of [createDiv ''0 days since 2024-01-01''
                           [ADMONITOR_CLS, ADMONITOR_WARNING_CLS], header_el, content_el]),
               None)" by code_simp
  note t1 = exec_keeps_single_banner [of note_view "''first''" "''warning''" one_banner_view]
  note t2 = exec_keeps_single_banner [of one_banner_view _ _ _ utc_dayjs days_template_settings
      1704067200000 1704067200001 "Some ()"
      "view_of [createDiv ''0 days since 2024-01-01''
                           [ADMONITOR_CLS, ADMONITOR_WARNING_CLS], header_el, content_el]" None]
  from t1 [THEN conjunct1, THEN mp, OF h1]
  have c1: "banners one_banner_view = banners note_view + 1" .
  from t1 [THEN conjunct2, THEN conjunct1, THEN mp, OF conjI [OF h2 h1]]
  have c2: "find_first ADMONITOR_CLS (children (containerEl one_banner_view))
       = Some (createDiv ''first'' [ADMONITOR_CLS, ADMONITOR_WARNING_CLS])"
    by simp
  from t2 [THEN conjunct2, THEN conjunct2, THEN mp, OF conjI [OF h3 h4]]
  have c3: "banners (view_of [createDiv ''0 days since 2024-01-01''
                           [ADMONITOR_CLS, ADMONITOR_WARNING_CLS], header_el, content_el]) \<le> 1" .
  from h1 h2 h3 h4 c1 c2 c3 show ?thesis by blast
qed

section \<open>Properties of the date resolution\<close>

text \<open>
  Claim C9. A \<open>dateToBeReferred\<close> that is none of the three strategies makes \<open>findDate\<close>
  throw an \<open>ExhaustiveError\<close> carrying the value, and a banner kind that is neither
  \<open>warning\<close> nor \<open>error\<close> makes \<open>insertAdmonitor\<close> throw one: neither returns.
\<close>

theorem unrecognized_value_throws:
  "(dateToBeReferred s \<noteq> ''Modified time'' \<and> dateToBeReferred s \<noteq> ''Front matter''
      \<and> dateToBeReferred s \<noteq> ''Capture group'' \<longrightarrow>
      findDate lib new_RegExp s file = Inl (ExhaustiveError (dateToBeReferred s)))
   \<and> (type \<noteq> ''warning'' \<and> type \<noteq> ''error'' \<longrightarrow>
        insertAdmonitor v text type = Inl (ExhaustiveError type))"
  by (simp add: findDate_def insertAdmonitor_def)

text \<open>The theorem at the strategy \<open>Created time\<close> and at the kind \<open>info\<close>.\<close>

theorem unrecognized_value_throws_witness:
  "dateToBeReferred (DEFAULT_SETTINGS \<lparr> dateToBeReferred := ''Created time'' \<rparr>) \<noteq> ''Modified time''
   \<and> dateToBeReferred (DEFAULT_SETTINGS \<lparr> dateToBeReferred := ''Created time'' \<rparr>) \<noteq> ''Front matter''
   \<and> dateToBeReferred (DEFAULT_SETTINGS \<lparr> dateToBeReferred := ''Created time'' \<rparr>) \<noteq> ''Capture group''
   \<and> ''info'' \<noteq> ''warning'' \<and> ''info'' \<noteq> ''error''
   \<and> findDate utc_dayjs default_RegExp (DEFAULT_SETTINGS \<lparr> dateToBeReferred := ''Created time'' \<rparr>)
        no_date_file = Inl (ExhaustiveError ''Created time'')
   \<and> insertAdmonitor note_view ''a note'' ''info'' = Inl (ExhaustiveError ''info'')"
  using unrecognized_value_throws [of "DEFAULT_SETTINGS \<lparr> dateToBeReferred := ''Created time'' \<rparr>"
      utc_dayjs default_RegExp no_date_file "''info''" note_view "''a note''"]
  by simp

text \<open>
  Claim C5. The claim says that a candidate string that cannot be parsed makes
  \<open>findDate\<close> return an absent result. With the front matter \<open>updated: not a date\<close> the
  candidate is \<open> not a date\<close>, the library cannot read it, and \<open>findDate\<close> returns the
  invalid date object, present.
\<close>

theorem unreadable_date_is_present:
  "front_matter_df front_matter_settings unreadable_date_file = Some (Str '' not a date'')
   \<and> parse utc_dayjs (Str '' not a date'') = InvalidDate
   \<and> findDate utc_dayjs default_RegExp front_matter_settings unreadable_date_file
       = Inr (Some InvalidDate)"
  by code_simp

text \<open>
  Claim C5 as the code has it. With the front matter strategy, and with the capture group
  strategy when the pattern is a regular expression, \<open>findDate\<close> does not throw. The
  candidate is what \<open>fm?.[frontMatterKey]\<close> or the \<open>date\<close> group gives: a string, or, for a
  front matter key that names a member every object inherits and no entry of the front
  matter, that member. \<open>findDate\<close> returns an absent result exactly when the candidate is
  undefined or the empty string, and otherwise what the library makes of the candidate:
  a present date, valid or not.
\<close>

theorem findDate_of_candidate:
  assumes "dateToBeReferred s = ''Front matter'' \<and> d = front_matter_df s file
           \<or> dateToBeReferred s = ''Capture group''
             \<and> new_RegExp (captureGroupPattern s) = Some pattern
             \<and> d = capture_group_dc pattern file"
  shows "findDate lib new_RegExp s file
           = Inr (case d of
                    None \<Rightarrow> None
                  | Some x \<Rightarrow> if x = Str [] then None else Some (parse lib x))"
  using assms
  by (auto simp: findDate_def date_of_def truthy_def split: option.splits jsval.splits)

text \<open>The theorem at a front matter that holds no date, at a line the default pattern
  matches, and at the front matter key \<open>constructor\<close> with a front matter that has no
  such entry.\<close>

theorem findDate_of_candidate_witness:
  "dateToBeReferred front_matter_settings = ''Front matter''
   \<and> front_matter_df front_matter_settings unreadable_date_file = Some (Str '' not a date'')
   \<and> findDate utc_dayjs default_RegExp front_matter_settings unreadable_date_file
       = Inr (Some (parse utc_dayjs (Str '' not a date'')))
   \<and> dateToBeReferred capture_group_settings = ''Capture group''
   \<and> default_RegExp (captureGroupPattern capture_group_settings) = Some default_pattern
   \<and> capture_group_dc default_pattern dated_line_file = Some (Str ''2022/05/01'')
   \<and> findDate utc_dayjs default_RegExp capture_group_settings dated_line_file
       = Inr (Some (parse utc_dayjs (Str ''2022/05/01'')))
   \<and> dateToBeReferred constructor_key_settings = ''Front matter''
   \<and> front_matter_df constructor_key_settings other_key_file = Some (Member ''constructor'')
   \<and> findDate utc_dayjs default_RegExp constructor_key_settings other_key_file
       = Inr (Some (parse utc_dayjs (Member ''constructor'')))"
proof -
  have h1: "dateToBeReferred front_matter_settings = ''Front matter''" by code_simp
  have h2: "Some (Str '' not a date'')
              = front_matter_df front_matter_settings unreadable_date_file"
    by code_simp
  have h3: "dateToBeReferred capture_group_settings = ''Capture group''" by code_simp
  have h4: "default_RegExp (captureGroupPattern capture_group_settings) = Some default_pattern"
    by (simp add: default_RegExp_def capture_group_settings_def)
  have h5: "Some (Str ''2022/05/01'') = capture_group_dc default_pattern dated_line_file"
    by code_simp
  have h6: "dateToBeReferred constructor_key_settings = ''Front matter''" by code_simp
  have h7: "Some (Member ''constructor'')
              = front_matter_df constructor_key_settings other_key_file"
    by code_simp
  from h1 h2 have fm: "dateToBeReferred front_matter_settings = ''Front matter''
           \<and> Some (Str '' not a date'')
               = front_matter_df front_matter_settings unreadable_date_file
           \<or> dateToBeReferred front_matter_settings = ''Capture group''
             \<and> default_RegExp (captureGroupPattern front_matter_settings) = Some default_pattern
             \<and> Some (Str '' not a date'')
                 = capture_group_dc default_pattern unreadable_date_file"
    by blast
  from h3 h4 h5 have cg: "dateToBeReferred capture_group_settings = ''Front matter''
           \<and> Some (Str ''2022/05/01'') = front_matter_df capture_group_settings dated_line_file
           \<or> dateToBeReferred capture_group_settings = ''Capture group''
             \<and> default_RegExp (captureGroupPattern capture_group_settings) = Some default_pattern
             \<and> Some (Str ''2022/05/01'') = capture_group_dc default_pattern dated_line_file"
    by blast
  from h6 h7 have inh: "dateToBeReferred constructor_key_settings = ''Front matter''
           \<and> Some (Member ''constructor'')
               = front_matter_df constructor_key_settings other_key_file
           \<or> dateToBeReferred constructor_key_settings = ''Capture group''
             \<and> default_RegExp (captureGroupPattern constructor_key_settings)
                 = Some default_pattern
             \<and> Some (Member ''constructor'')
                 = capture_group_dc default_pattern other_key_file"
    by blast
  from findDate_of_candidate [of front_matter_settings "Some (Str '' not a date'')"
      unreadable_date_file default_RegExp default_pattern utc_dayjs, OF fm]
  have r1: "findDate utc_dayjs default_RegExp front_matter_settings unreadable_date_file
       = Inr (Some (parse utc_dayjs (Str '' not a date'')))" by simp
  from findDate_of_candidate [of capture_group_settings "Some (Str ''2022/05/01'')"
      dated_line_file default_RegExp default_pattern utc_dayjs, OF cg]
  have r2: "findDate utc_dayjs default_RegExp capture_group_settings dated_line_file
       = Inr (Some (parse utc_dayjs (Str ''2022/05/01'')))" by simp
  from findDate_of_candidate [of constructor_key_settings "Some (Member ''constructor'')"
      other_key_file default_RegExp default_pattern utc_dayjs, OF inh]
  have r3: "findDate utc_dayjs default_RegExp constructor_key_settings other_key_file
       = Inr (Some (parse utc_dayjs (Member ''constructor'')))" by simp
  from h1 h2 [symmetric] h3 h4 h5 [symmetric] h6 h7 [symmetric] r1 r2 r3
  show ?thesis by blast
qed

text \<open>An inherited member is a candidate only while the front matter has no entry of
  the name, and a line with the key \<open>__proto__\<close> makes no entry.\<close>

lemma own_entry_before_inherited:
  "findDate utc_dayjs default_RegExp constructor_key_settings
     \<lparr> mtime = 0, content = ''---\<newline>constructor: 2024-01-01\<newline>---'' \<rparr>
     = Inr (Some (parse utc_dayjs (Str '' 2024-01-01'')))
   \<and> getNoCacheFrontMatter ''---\<newline>__proto__: 2024-01-01\<newline>---'' = Some Map.empty
   \<and> get_property Map.empty ''__proto__'' = Some (Member ''__proto__'')
   \<and> get_property Map.empty ''updated'' = None"
proof (intro conjI)
  show "getNoCacheFrontMatter ''---\<newline>__proto__: 2024-01-01\<newline>---'' = Some Map.empty"
    by (simp add: getNoCacheFrontMatter_def fm_step_def set_property_def trim_def
        js_whitespace_def dot_def)
  show "get_property Map.empty ''__proto__'' = Some (Member ''__proto__'')"
    by (simp add: get_property_def Object_prototype_names_def)
  show "get_property Map.empty ''updated'' = None"
    by (simp add: get_property_def Object_prototype_names_def)
qed code_simp

section \<open>Properties of one evaluation\<close>

text \<open>
  Claim C1. The claim says that an evaluation resolves the date of the document with
  \<open>findDate\<close> and decides from that date. \<open>exec\<close> binds \<open>lastUpdated\<close> to \<open>dayjs()\<close>, the
  current time, and never calls \<open>findDate\<close>. With the default settings, a file last
  modified in 1970 has a resolved date 19723 days old, over the threshold of 180, and
  the evaluation shows no banner. Whatever the document and the strategy, the number of
  days is the one between the two readings \<open>t1\<close> and \<open>t2\<close> of the clock, and the date in
  the text is \<open>t1\<close>.
\<close>

theorem exec_ignores_resolved_date:
  "findDate utc_dayjs default_RegExp DEFAULT_SETTINGS epoch_file = Inr (Some (Dayjs 0))
   \<and> diff_day (Dayjs 1704067200000) (Dayjs 0) = Some 19723
   \<and> minNumberOfDaysToShowWarning DEFAULT_SETTINGS = 180
   \<and> exec utc_dayjs DEFAULT_SETTINGS 1704067200000 1704067200000 (Some note_view) (Some ())
       = (Some note_view, None)
   \<and> exec lib s t1 t2 (Some v) (Some a)
       = (if abs_floor_div (t2 - t1) MILLISECONDS_A_DAY \<ge> minNumberOfDaysToShowWarning s
          then finish (removeAdmonitor v)
                 (insertAdmonitor (removeAdmonitor v)
                    (render lib s (abs_floor_div (t2 - t1) MILLISECONDS_A_DAY) (Dayjs t1))
                    ''warning'')
          else (Some (removeAdmonitor v), None))"
proof (intro conjI)
  show "exec lib s t1 t2 (Some v) (Some a)
       = (if abs_floor_div (t2 - t1) MILLISECONDS_A_DAY \<ge> minNumberOfDaysToShowWarning s
          then finish (removeAdmonitor v)
                 (insertAdmonitor (removeAdmonitor v)
                    (render lib s (abs_floor_div (t2 - t1) MILLISECONDS_A_DAY) (Dayjs t1))
                    ''warning'')
          else (Some (removeAdmonitor v), None))"
    by (simp add: exec_def Let_def)
qed code_simp+

text \<open>
  Claim C6. The claim says that an absent resolved date shows the error banner
  \<open>The date was not found\<close> when \<open>showWarningIfDataIsNotFound\<close> is set. For a note without
  front matter \<open>findDate\<close> returns an absent result, and with the flag set the evaluation
  shows no banner under the default threshold, and a warning banner under the threshold
  0: \<open>lastUpdated\<close> is \<open>dayjs()\<close>, never absent, so the branch that inserts the error
  banner is not reached.
\<close>

theorem missing_date_shows_no_error_banner:
  "findDate utc_dayjs default_RegExp warn_missing_settings no_date_file = Inr None
   \<and> showWarningIfDataIsNotFound warn_missing_settings
   \<and> exec utc_dayjs warn_missing_settings 1704067200000 1704067200000 (Some note_view) (Some ())
       = (Some note_view, None)
   \<and> exec utc_dayjs (warn_missing_settings \<lparr> minNumberOfDaysToShowWarning := 0 \<rparr>)
        1704067200000 1704067200000 (Some note_view) (Some ())
       = (Some (view_of [createDiv ''The content has been no updated for over 0 days''
                           [ADMONITOR_CLS, ADMONITOR_WARNING_CLS], header_el, content_el]),
          None)"
  by code_simp

text \<open>
  Claim C7. The claim says that a warning is shown exactly when the resolved date is at
  least \<open>minNumberOfDaysToShowWarning\<close> days old, with the number of days and the
  resolved date in the text. For a file modified exactly 180 days before the evaluation
  and the threshold 180, the evaluation shows no banner; with the threshold 0 its text
  counts 0 days and names the day of the evaluation, not 2023-07-05: \<open>exec\<close> compares
  and renders \<open>dayjs()\<close>, not the date of the file.
\<close>

theorem threshold_not_applied_to_resolved_date:
  "findDate utc_dayjs default_RegExp DEFAULT_SETTINGS half_year_old_file
     = Inr (Some (Dayjs 1688515200000))
   \<and> diff_day (Dayjs 1704067200000) (Dayjs 1688515200000) = Some 180
   \<and> minNumberOfDaysToShowWarning DEFAULT_SETTINGS = 180
   \<and> exec utc_dayjs DEFAULT_SETTINGS 1704067200000 1704067200000 (Some note_view) (Some ())
       = (Some note_view, None)
   \<and> format_ymd utc_dayjs (Dayjs 1688515200000) = ''2023-07-05''
   \<and> exec utc_dayjs days_template_settings 1704067200000 1704067200000 (Some note_view) (Some ())
       = (Some (view_of [createDiv ''0 days since 2024-01-01''
                           [ADMONITOR_CLS, ADMONITOR_WARNING_CLS], header_el, content_el]),
          None)"
  by code_simp

end
